theory Spec2Isabelle
  imports Main
begin

section \<open>Request breakpoint editor (exchange-request-breakpoint-card.tsx)\<close>

subsection \<open>Headers\<close>

text \<open>
  \<^verbatim>\<open>HeadersArray\<close> is the editor's ordered list of (name, value) pairs.
\<close>

type_synonym HeadersArray = "(string \<times> string) list"

text \<open>
  Modelled from the spec: the type \<^verbatim>\<open>RequestHeaders\<close> is imported from
  \<^verbatim>\<open>../../types\<close>, which is not among the sources. The spec calls it the
  canonical keyed header representation, in which duplicate header names are kept as an
  ordered sequence and are not collapsed into a mapping with unique keys. It is modelled
  as an ordered sequence of entries, each keyed by its header name; a name may occur in
  several entries.
\<close>

record HeaderEntry =
  header_name :: string
  header_value :: string

datatype RequestHeaders = RequestHeaders "HeaderEntry list"

text \<open>
  Modelled from the spec: \<^verbatim>\<open>headersToHeadersArray\<close> is imported from
  \<^verbatim>\<open>../common/editable-headers\<close>, which is not among the sources. The spec says it
  converts a headers mapping to an ordered pair list: one pair per entry, in the order
  of the entries.
\<close>

fun headersToHeadersArray :: "RequestHeaders \<Rightarrow> HeadersArray" where
  "headersToHeadersArray (RequestHeaders es) =
     map (\<lambda>e. (header_name e, header_value e)) es"

text \<open>
  Modelled from the spec: \<^verbatim>\<open>headersArrayToHeaders\<close> is imported from
  \<^verbatim>\<open>../common/editable-headers\<close>, which is not among the sources. The spec says it
  converts the ordered pair sequence back to the canonical keyed header representation,
  preserving duplicate header names as an ordered sequence: one entry per pair, in the
  order of the pairs.
\<close>

definition headersArrayToHeaders :: "HeadersArray \<Rightarrow> RequestHeaders" where
  "headersArrayToHeaders hs =
     RequestHeaders (map (\<lambda>(n, v). \<lparr>header_name = n, header_value = v\<rparr>) hs)"

subsection \<open>The in-progress breakpoint result\<close>

text \<open>
  \<^verbatim>\<open>MockttpBreakpointRequestResult\<close> (declared outside the sources) is the snapshot
  held in \<^verbatim>\<open>exchange.requestBreakpoint.inProgressResult\<close>. The card reads and writes
  the fields \<^verbatim>\<open>method\<close>, \<^verbatim>\<open>url\<close> and \<^verbatim>\<open>headers\<close>; whatever other fields the object
  carries are the extension part of the record (\<open>more\<close>), which
  \<^verbatim>\<open>Object.assign({}, inProgressResult, ...)\<close> copies along. The field \<^verbatim>\<open>method\<close> is
  named \<open>method_name\<close> here.
\<close>

record BreakpointRequestResult =
  method_name :: string
  url :: string
  headers :: RequestHeaders

text \<open>
  Each handler either calls \<^verbatim>\<open>this.props.onChange\<close> once, with a fresh object, or
  returns without calling it. The model returns the argument of \<^verbatim>\<open>onChange\<close>:
  \<open>Some r\<close> when it is called with \<open>r\<close>, \<open>None\<close> when it is not called. The
  first parameter is \<^verbatim>\<open>event.target.value\<close> (or the headers array), the second is
  \<^verbatim>\<open>inProgressResult\<close>.
\<close>

definition onMethodChanged ::
  "string \<Rightarrow> 'a BreakpointRequestResult_scheme \<Rightarrow> 'a BreakpointRequestResult_scheme option" where
  "onMethodChanged m inProgressResult =
     (if m = method_name inProgressResult then None
      else Some (inProgressResult\<lparr>method_name := m\<rparr>))"

definition onUrlChanged ::
  "string \<Rightarrow> 'a BreakpointRequestResult_scheme \<Rightarrow> 'a BreakpointRequestResult_scheme option" where
  "onUrlChanged v inProgressResult = Some (inProgressResult\<lparr>url := v\<rparr>)"

definition onHeadersChanged ::
  "HeadersArray \<Rightarrow> 'a BreakpointRequestResult_scheme \<Rightarrow> 'a BreakpointRequestResult_scheme option" where
  "onHeadersChanged hs inProgressResult =
     Some (inProgressResult\<lparr>headers := headersArrayToHeaders hs\<rparr>)"

text \<open>
  The headers array that \<^verbatim>\<open>render\<close> hands to \<^verbatim>\<open>EditableHeaders\<close>.
\<close>

definition render_headers :: "'a BreakpointRequestResult_scheme \<Rightarrow> HeadersArray" where
  "render_headers inProgressResult = headersToHeadersArray (headers inProgressResult)"

section \<open>Android Frida device and target selection (AndroidFridaConfig)\<close>

subsection \<open>Data\<close>

text \<open>
  \<^verbatim>\<open>FridaHost\<close>, \<^verbatim>\<open>FridaTarget\<close> and \<^verbatim>\<open>FridaActivationOptions\<close> are declared in
  \<^verbatim>\<open>model/interception/frida\<close>, outside the sources; their shapes are taken from the
  way the component uses them (\<^verbatim>\<open>host.id\<close>, \<^verbatim>\<open>host.name\<close>, \<^verbatim>\<open>host.state\<close> with its
  four literals, \<^verbatim>\<open>target.id\<close>, \<^verbatim>\<open>target.name\<close>, and the three option objects passed
  to \<^verbatim>\<open>activateInterceptor\<close>).
\<close>

datatype HostState = Available | Unavailable | LaunchRequired | SetupRequired

record FridaHost =
  host_id :: string
  host_name :: string
  host_state :: HostState

record FridaTarget =
  target_id :: string
  target_name :: string

datatype FridaActivationOptions =
    Launch string                \<comment> \<open>\<^verbatim>\<open>{ action: 'launch', hostId }\<close>\<close>
  | Setup string                 \<comment> \<open>\<^verbatim>\<open>{ action: 'setup', hostId }\<close>\<close>
  | Intercept string string      \<comment> \<open>\<^verbatim>\<open>{ action: 'intercept', hostId, targetId }\<close>\<close>

text \<open>
  The observable fields of the component, and the one prop its logic reads:
  \<^verbatim>\<open>this.props.interceptor.metadata?.hosts\<close>, which is \<open>None\<close> when the metadata or
  its host list is undefined.
\<close>

record AndroidFridaConfig =
  metadata_hosts :: "FridaHost list option"
  fridaTargets :: "FridaTarget list"
  inProgressHostIds :: "string list"
  inProgressTargetIds :: "string list"
  selectedHostId :: "string option"
  searchInput :: string

text \<open>
  What an action asks of the outside world. A call of \<^verbatim>\<open>this.props.activateInterceptor\<close>
  is recorded with its options and with the component as it is at the moment of the
  call, so that what was already written when the service is invoked can be read off.
  A call of \<^verbatim>\<open>getDetailedInterceptorMetadata("android-frida", hostId)\<close> is recorded with
  its host id.
\<close>

datatype effect =
    ActivateInterceptor FridaActivationOptions AndroidFridaConfig
  | GetDetailedInterceptorMetadata string

text \<open>How a promise settles.\<close>

datatype outcome = Resolved | Rejected

subsection \<open>Getters\<close>

definition fridaHosts :: "AndroidFridaConfig \<Rightarrow> FridaHost list" where
  "fridaHosts s = (case metadata_hosts s of None \<Rightarrow> [] | Some hs \<Rightarrow> hs)"

text \<open>
  \<^verbatim>\<open>!this.selectedHostId\<close>: in JavaScript both \<^verbatim>\<open>undefined\<close> and the empty string are
  falsy.
\<close>

fun falsy :: "string option \<Rightarrow> bool" where
  "falsy None = True"
| "falsy (Some v) = (v = [])"

definition selectedHost :: "AndroidFridaConfig \<Rightarrow> FridaHost option" where
  "selectedHost s =
     (if falsy (selectedHostId s) then None
      else find (\<lambda>host. Some (host_id host) = selectedHostId s \<and> host_state host \<noteq> Unavailable)
             (fridaHosts s))"

subsection \<open>Target refresh\<close>

text \<open>
  \<^verbatim>\<open>updateTargets\<close> is a generator run by \<^verbatim>\<open>flow\<close>: it runs up to its \<^verbatim>\<open>yield\<close>, and is
  resumed with the response when the request's promise resolves. Other methods of the
  component may run in between. The two halves are modelled apart:
  \<open>updateTargets_start\<close> is the part before the \<^verbatim>\<open>yield\<close> (it either finishes at once,
  or issues the request), \<open>updateTargets_resume\<close> the part after it, given the response
  (\<open>None\<close> for \<^verbatim>\<open>undefined\<close>).
\<close>

definition updateTargets_start :: "AndroidFridaConfig \<Rightarrow> AndroidFridaConfig \<times> effect list" where
  "updateTargets_start s =
     (case selectedHost s of
        None \<Rightarrow> (s\<lparr>fridaTargets := []\<rparr>, [])
      | Some host \<Rightarrow> (s, [GetDetailedInterceptorMetadata (host_id host)]))"

definition updateTargets_resume ::
  "FridaTarget list option \<Rightarrow> AndroidFridaConfig \<Rightarrow> AndroidFridaConfig" where
  "updateTargets_resume result s =
     s\<lparr>fridaTargets := (case result of None \<Rightarrow> [] | Some targets \<Rightarrow> targets)\<rparr>"

subsection \<open>Actions\<close>

text \<open>
  lodash's \<^verbatim>\<open>_.pull(array, value)\<close> removes every element equal to the value from the
  array and keeps the others in their order.
\<close>

definition pull :: "'a list \<Rightarrow> 'a \<Rightarrow> 'a list" where
  "pull array v = filter (\<lambda>x. x \<noteq> v) array"

definition deselectHost :: "AndroidFridaConfig \<Rightarrow> AndroidFridaConfig" where
  "deselectHost s = s\<lparr>selectedHostId := None\<rparr>"

definition selectHost :: "string \<Rightarrow> AndroidFridaConfig \<Rightarrow> AndroidFridaConfig \<times> effect list" where
  "selectHost hostId s0 =
     (let s = s0\<lparr>selectedHostId := Some hostId\<rparr> in
      case selectedHost s of
        None \<Rightarrow> (s, [])
      | Some host \<Rightarrow>
          (case host_state host of
             Available \<Rightarrow> updateTargets_start (s\<lparr>searchInput := []\<rparr>)
           | LaunchRequired \<Rightarrow>
               (let s1 = s\<lparr>inProgressHostIds := inProgressHostIds s @ [hostId]\<rparr>
                in (s1, [ActivateInterceptor (Launch hostId) s1]))
           | SetupRequired \<Rightarrow>
               (let s1 = s\<lparr>inProgressHostIds := inProgressHostIds s @ [hostId]\<rparr>
                in (s1, [ActivateInterceptor (Setup hostId) s1]))
           | Unavailable \<Rightarrow> (s, [])))"

definition interceptTarget :: "string \<Rightarrow> AndroidFridaConfig \<Rightarrow> AndroidFridaConfig \<times> effect list" where
  "interceptTarget targetId s =
     (case selectedHost s of
        None \<Rightarrow> (s, [])
      | Some host \<Rightarrow>
          (let s1 = s\<lparr>inProgressTargetIds := inProgressTargetIds s @ [targetId]\<rparr>
           in (s1, [ActivateInterceptor (Intercept (host_id host) targetId) s1])))"

definition onSearchChange :: "string \<Rightarrow> AndroidFridaConfig \<Rightarrow> AndroidFridaConfig" where
  "onSearchChange v s = s\<lparr>searchInput := v\<rparr>"

text \<open>
  The callback each activation call registers with \<^verbatim>\<open>.finally\<close>. Which of the three
  closures it is follows from the call site, that is from the action of the options.
\<close>

fun finally_callback :: "FridaActivationOptions \<Rightarrow> AndroidFridaConfig \<Rightarrow> AndroidFridaConfig" where
  "finally_callback (Launch hostId) s = s\<lparr>inProgressHostIds := pull (inProgressHostIds s) hostId\<rparr>"
| "finally_callback (Setup hostId) s = s\<lparr>inProgressHostIds := pull (inProgressHostIds s) hostId\<rparr>"
| "finally_callback (Intercept hostId targetId) s =
     s\<lparr>inProgressTargetIds := pull (inProgressTargetIds s) targetId\<rparr>"

text \<open>
  The promise of an activation settles: \<^verbatim>\<open>.finally\<close> runs its callback when the promise
  resolves and when it rejects.
\<close>

fun settle :: "outcome \<Rightarrow> FridaActivationOptions \<Rightarrow> AndroidFridaConfig \<Rightarrow> AndroidFridaConfig" where
  "settle Resolved options s = finally_callback options s"
| "settle Rejected options s = finally_callback options s"

subsection \<open>Reaction to discovery updates, and mounting\<close>

text \<open>
  The body of the \<^verbatim>\<open>autorun\<close> registered in \<^verbatim>\<open>componentDidMount\<close>. MobX runs it once
  when it is registered and again whenever \<^verbatim>\<open>selectedHostId\<close> or the host list changes.
\<close>

definition autorun_body :: "AndroidFridaConfig \<Rightarrow> AndroidFridaConfig" where
  "autorun_body s =
     (if \<not> falsy (selectedHostId s)
         \<and> \<not> list_ex (\<lambda>host. Some (host_id host) = selectedHostId s) (fridaHosts s)
      then deselectHost s else s)"

text \<open>
  A discovery update: the interceptor's metadata is replaced, and the reaction runs.
\<close>

definition discoveryUpdate :: "FridaHost list option \<Rightarrow> AndroidFridaConfig \<Rightarrow> AndroidFridaConfig" where
  "discoveryUpdate md s = autorun_body (s\<lparr>metadata_hosts := md\<rparr>)"

definition componentDidMount :: "AndroidFridaConfig \<Rightarrow> AndroidFridaConfig \<times> effect list" where
  "componentDidMount s =
     (let (s1, fx1) =
            (case fridaHosts s of
               [host] \<Rightarrow> if host_state host = Available then selectHost (host_id host) s else (s, [])
             | _ \<Rightarrow> (s, []));
          (s2, fx2) = updateTargets_start (autorun_body s1)
      in (s2, fx1 @ fx2))"

text \<open>
  What \<^verbatim>\<open>render\<close> shows: the target list when there is a selected host, the host list
  otherwise; an entry is shown as activating when its id is in the in-progress array.
\<close>

definition host_activating :: "AndroidFridaConfig \<Rightarrow> string \<Rightarrow> bool" where
  "host_activating s hid \<longleftrightarrow> hid \<in> set (inProgressHostIds s)"

definition target_activating :: "AndroidFridaConfig \<Rightarrow> string \<Rightarrow> bool" where
  "target_activating s tid \<longleftrightarrow> tid \<in> set (inProgressTargetIds s)"

section \<open>Properties of the request breakpoint editor\<close>

lemma headersArrayToHeaders_inverse: "headersArrayToHeaders (headersToHeadersArray h) = h"
  by (cases h) (auto simp: headersArrayToHeaders_def comp_def intro!: map_idI)

lemma headersToHeadersArray_inverse: "headersToHeadersArray (headersArrayToHeaders hs) = hs"
  by (simp add: headersArrayToHeaders_def comp_def case_prod_beta)

text \<open>
  C7. Every edit that reaches \<^verbatim>\<open>onChange\<close> passes a snapshot that agrees with the
  previous one on every field but the edited one, which holds the new value: a method
  change that calls \<^verbatim>\<open>onChange\<close> changes only \<open>method_name\<close>; a url change always calls
  \<^verbatim>\<open>onChange\<close> and changes only \<open>url\<close>; a headers change always calls \<^verbatim>\<open>onChange\<close> and
  changes only \<open>headers\<close>, to the converted headers array. The fields the card never
  names (\<open>more\<close>) are copied as well.
\<close>

theorem breakpoint_edit_frame:
  "(onMethodChanged m r = Some r' \<longrightarrow>
      method_name r' = m \<and> url r' = url r \<and> headers r' = headers r
      \<and> BreakpointRequestResult.more r' = BreakpointRequestResult.more r)
   \<and> (\<exists>r'. onUrlChanged u r = Some r' \<and>
      url r' = u \<and> method_name r' = method_name r \<and> headers r' = headers r
      \<and> BreakpointRequestResult.more r' = BreakpointRequestResult.more r)
   \<and> (\<exists>r'. onHeadersChanged hs r = Some r' \<and>
      headers r' = headersArrayToHeaders hs \<and> method_name r' = method_name r \<and> url r' = url r
      \<and> BreakpointRequestResult.more r' = BreakpointRequestResult.more r)"
  by (auto simp: onMethodChanged_def onUrlChanged_def onHeadersChanged_def split: if_splits)

theorem breakpoint_edit_frame_witness:
  "onMethodChanged ''POST''
      \<lparr>method_name = ''GET'', url = ''http://example.com/'',
       headers = RequestHeaders [\<lparr>header_name = ''host'', header_value = ''example.com''\<rparr>]\<rparr>
     = Some \<lparr>method_name = ''POST'', url = ''http://example.com/'',
             headers = RequestHeaders [\<lparr>header_name = ''host'', header_value = ''example.com''\<rparr>]\<rparr>
   \<and> method_name \<lparr>method_name = ''POST'', url = ''http://example.com/'',
             headers = RequestHeaders [\<lparr>header_name = ''host'', header_value = ''example.com''\<rparr>]\<rparr>
       = ''POST''
   \<and> url \<lparr>method_name = ''POST'', url = ''http://example.com/'',
             headers = RequestHeaders [\<lparr>header_name = ''host'', header_value = ''example.com''\<rparr>]\<rparr>
       = ''http://example.com/''"
proof -
  have called: "onMethodChanged ''POST''
      \<lparr>method_name = ''GET'', url = ''http://example.com/'',
       headers = RequestHeaders [\<lparr>header_name = ''host'', header_value = ''example.com''\<rparr>]\<rparr>
     = Some \<lparr>method_name = ''POST'', url = ''http://example.com/'',
             headers = RequestHeaders [\<lparr>header_name = ''host'', header_value = ''example.com''\<rparr>]\<rparr>"
    by (simp add: onMethodChanged_def)
  from breakpoint_edit_frame [THEN conjunct1, rule_format, OF called] called
  show ?thesis by simp
qed

text \<open>
  C8. Converting the keyed headers to the ordered pair list and that list back gives the
  headers again, entry for entry, in the same order and with every duplicate name; so
  handing the rendered headers array back to \<^verbatim>\<open>onHeadersChanged\<close> unchanged passes the
  snapshot it started from.
\<close>

theorem headers_round_trip:
  "headersArrayToHeaders (headersToHeadersArray h) = h
   \<and> onHeadersChanged (render_headers r) r = Some r"
  by (simp add: headersArrayToHeaders_inverse onHeadersChanged_def render_headers_def)

theorem headers_round_trip_witness:
  "headersToHeadersArray
      (RequestHeaders [\<lparr>header_name = ''set-cookie'', header_value = ''a=1''\<rparr>,
                       \<lparr>header_name = ''host'', header_value = ''example.com''\<rparr>,
                       \<lparr>header_name = ''set-cookie'', header_value = ''b=2''\<rparr>])
     = [(''set-cookie'', ''a=1''), (''host'', ''example.com''), (''set-cookie'', ''b=2'')]
   \<and> headersArrayToHeaders
        [(''set-cookie'', ''a=1''), (''host'', ''example.com''), (''set-cookie'', ''b=2'')]
     = RequestHeaders [\<lparr>header_name = ''set-cookie'', header_value = ''a=1''\<rparr>,
                       \<lparr>header_name = ''host'', header_value = ''example.com''\<rparr>,
                       \<lparr>header_name = ''set-cookie'', header_value = ''b=2''\<rparr>]"
proof -
  have array: "headersToHeadersArray
      (RequestHeaders [\<lparr>header_name = ''set-cookie'', header_value = ''a=1''\<rparr>,
                       \<lparr>header_name = ''host'', header_value = ''example.com''\<rparr>,
                       \<lparr>header_name = ''set-cookie'', header_value = ''b=2''\<rparr>])
     = [(''set-cookie'', ''a=1''), (''host'', ''example.com''), (''set-cookie'', ''b=2'')]"
    by simp
  from headers_round_trip [THEN conjunct1,
      of "RequestHeaders [\<lparr>header_name = ''set-cookie'', header_value = ''a=1''\<rparr>,
                       \<lparr>header_name = ''host'', header_value = ''example.com''\<rparr>,
                       \<lparr>header_name = ''set-cookie'', header_value = ''b=2''\<rparr>]"]
  show ?thesis by (simp add: array)
qed

text \<open>
  C9. Setting the method to the value it already has does not call \<^verbatim>\<open>onChange\<close>, the
  only write path to the store; setting it to a different value calls \<^verbatim>\<open>onChange\<close> with
  the snapshot in which only \<open>method_name\<close> is replaced, \<open>url\<close> and \<open>headers\<close> being kept.
\<close>

theorem onMethodChanged_same_is_noop:
  "onMethodChanged (method_name r) r = None
   \<and> (m \<noteq> method_name r \<longrightarrow>
        onMethodChanged m r = Some (r\<lparr>method_name := m\<rparr>)
        \<and> url (r\<lparr>method_name := m\<rparr>) = url r \<and> headers (r\<lparr>method_name := m\<rparr>) = headers r)"
  by (simp add: onMethodChanged_def)

theorem onMethodChanged_same_is_noop_witness:
  "onMethodChanged ''GET''
      \<lparr>method_name = ''GET'', url = ''http://example.com/'', headers = RequestHeaders []\<rparr> = None
   \<and> onMethodChanged ''PUT''
      \<lparr>method_name = ''GET'', url = ''http://example.com/'', headers = RequestHeaders []\<rparr>
     = Some \<lparr>method_name = ''PUT'', url = ''http://example.com/'', headers = RequestHeaders []\<rparr>"
  using onMethodChanged_same_is_noop
    [of "\<lparr>method_name = ''GET'', url = ''http://example.com/'', headers = RequestHeaders []\<rparr>" "''PUT''"]
  by simp

section \<open>Properties of the device and target selection\<close>

subsection \<open>Looking up the selected host\<close>

lemma find_host_distinct:
  "distinct (map host_id hosts) \<Longrightarrow> h \<in> set hosts \<Longrightarrow>
   find (\<lambda>x. host_id x = host_id h \<and> P x) hosts = (if P h then Some h else None)"
proof (induction hosts)
  case Nil
  then show ?case by simp
next
  case (Cons a hosts)
  show ?case
  proof (cases "a = h")
    case True
    from Cons.prems True have "host_id h \<notin> host_id ` set hosts" by simp
    then have "\<forall>x\<in>set hosts. host_id x \<noteq> host_id h" by (metis imageI)
    then have "find (\<lambda>x. host_id x = host_id h \<and> P x) hosts = None"
      by (auto simp: find_None_iff)
    with True show ?thesis by simp
  next
    case False
    with Cons.prems have "h \<in> set hosts" "host_id a \<noteq> host_id h" by auto
    with Cons show ?thesis by simp
  qed
qed

lemma selectedHost_distinct:
  assumes "distinct (map host_id (fridaHosts s))" "h \<in> set (fridaHosts s)"
    "selectedHostId s = Some (host_id h)" "host_id h \<noteq> []"
  shows "selectedHost s = (if host_state h \<noteq> Unavailable then Some h else None)"
  using find_host_distinct[OF assms(1,2), of "\<lambda>x. host_state x \<noteq> Unavailable"] assms(3,4)
  by (simp add: selectedHost_def)

lemma selectedHost_SomeD:
  "selectedHost s = Some h \<Longrightarrow>
     selectedHostId s = Some (host_id h) \<and> host_id h \<noteq> [] \<and> h \<in> set (fridaHosts s)
     \<and> host_state h \<noteq> Unavailable"
  unfolding selectedHost_def
  by (cases "selectedHostId s") (auto split: if_splits simp: find_Some_iff in_set_conv_nth)

lemma selectedHost_None_if_all_unavailable:
  "\<forall>h\<in>set (fridaHosts s). Some (host_id h) = selectedHostId s \<longrightarrow> host_state h = Unavailable
   \<Longrightarrow> selectedHost s = None"
  by (auto simp: selectedHost_def find_None_iff)

lemma selectedHost_after_select:
  assumes "distinct (map host_id (fridaHosts s))" "h \<in> set (fridaHosts s)" "host_id h \<noteq> []"
  shows "selectedHost (s\<lparr>selectedHostId := Some (host_id h)\<rparr>) =
           (if host_state h \<noteq> Unavailable then Some h else None)"
  using assms by (intro selectedHost_distinct) (simp_all add: fridaHosts_def)

lemma selectedHost_absent:
  "hostId \<notin> host_id ` set (fridaHosts s) \<Longrightarrow>
   selectedHost (s\<lparr>selectedHostId := Some hostId\<rparr>) = None"
  by (auto simp: selectedHost_def fridaHosts_def find_None_iff)

lemma selectedHost_inProgressTargetIds_update [simp]:
  "selectedHost (s\<lparr>inProgressTargetIds := xs\<rparr>) = selectedHost s"
  by (simp add: selectedHost_def fridaHosts_def)

lemma selectedHost_inProgressHostIds_update [simp]:
  "selectedHost (s\<lparr>inProgressHostIds := xs\<rparr>) = selectedHost s"
  by (simp add: selectedHost_def fridaHosts_def)

subsection \<open>Removal from the in-progress arrays\<close>

lemma set_pull: "set (pull xs v) = set xs - {v}"
  by (auto simp: pull_def)

lemma count_list_pull_other: "w \<noteq> v \<Longrightarrow> count_list (pull xs v) w = count_list xs w"
  by (induction xs) (simp_all add: pull_def)

lemma count_list_pull_self: "count_list (pull xs v) v = 0"
  by (induction xs) (simp_all add: pull_def)

lemma settle_eq: "settle oc options s = finally_callback options s"
  by (cases oc) simp_all

subsection \<open>The two actions that call the activation service\<close>

lemma interceptTarget_Some:
  "selectedHost s = Some host \<Longrightarrow>
   interceptTarget targetId s =
     (s\<lparr>inProgressTargetIds := inProgressTargetIds s @ [targetId]\<rparr>,
      [ActivateInterceptor (Intercept (host_id host) targetId)
         (s\<lparr>inProgressTargetIds := inProgressTargetIds s @ [targetId]\<rparr>)])"
  by (simp add: interceptTarget_def Let_def)

lemma interceptTarget_None: "selectedHost s = None \<Longrightarrow> interceptTarget targetId s = (s, [])"
  by (simp add: interceptTarget_def)

lemma selectHost_calls:
  "ActivateInterceptor options at_call \<in> set (snd (selectHost hostId s)) \<Longrightarrow>
     (options = Launch hostId \<or> options = Setup hostId)
     \<and> at_call = fst (selectHost hostId s) \<and> host_activating at_call hostId"
  by (auto simp: selectHost_def Let_def updateTargets_start_def host_activating_def
      split: option.splits HostState.splits)

lemma interceptTarget_calls:
  "ActivateInterceptor options at_call \<in> set (snd (interceptTarget targetId s)) \<Longrightarrow>
     (\<exists>host. selectedHost s = Some host \<and> options = Intercept (host_id host) targetId)
     \<and> at_call = fst (interceptTarget targetId s) \<and> target_activating at_call targetId"
  by (auto simp: interceptTarget_def Let_def target_activating_def split: option.splits)

lemma selectHost_LaunchRequired:
  "selectedHost (s\<lparr>selectedHostId := Some hostId\<rparr>) = Some host \<Longrightarrow>
   host_state host = LaunchRequired \<Longrightarrow>
   selectHost hostId s =
     (s\<lparr>selectedHostId := Some hostId, inProgressHostIds := inProgressHostIds s @ [hostId]\<rparr>,
      [ActivateInterceptor (Launch hostId)
         (s\<lparr>selectedHostId := Some hostId, inProgressHostIds := inProgressHostIds s @ [hostId]\<rparr>)])"
  by (simp add: selectHost_def Let_def)

lemma selectHost_SetupRequired:
  "selectedHost (s\<lparr>selectedHostId := Some hostId\<rparr>) = Some host \<Longrightarrow>
   host_state host = SetupRequired \<Longrightarrow>
   selectHost hostId s =
     (s\<lparr>selectedHostId := Some hostId, inProgressHostIds := inProgressHostIds s @ [hostId]\<rparr>,
      [ActivateInterceptor (Setup hostId)
         (s\<lparr>selectedHostId := Some hostId, inProgressHostIds := inProgressHostIds s @ [hostId]\<rparr>)])"
  by (simp add: selectHost_def Let_def)

lemma host_activating_settle:
  "host_activating (settle oc options s) x \<longleftrightarrow>
     host_activating s x \<and> options \<noteq> Launch x \<and> options \<noteq> Setup x"
  by (cases options) (auto simp: settle_eq host_activating_def set_pull)

lemma target_activating_settle:
  "target_activating (settle oc options s) x \<longleftrightarrow>
     target_activating s x \<and> (\<forall>hid. options \<noteq> Intercept hid x)"
  by (cases options) (auto simp: settle_eq target_activating_def set_pull)

lemma host_marks_kept:
  assumes "host_activating s x"
  shows "host_activating (fst (selectHost hostId s)) x"
    and "host_activating (fst (interceptTarget targetId s)) x"
    and "host_activating (deselectHost s) x"
    and "host_activating (fst (updateTargets_start s)) x"
    and "host_activating (updateTargets_resume result s) x"
    and "host_activating (discoveryUpdate md s) x"
    and "host_activating (onSearchChange v s) x"
  using assms
  by (auto simp: host_activating_def selectHost_def interceptTarget_def deselectHost_def
      updateTargets_start_def updateTargets_resume_def discoveryUpdate_def autorun_body_def
      onSearchChange_def Let_def split: option.splits HostState.splits)

lemma target_marks_kept:
  assumes "target_activating s x"
  shows "target_activating (fst (selectHost hostId s)) x"
    and "target_activating (fst (interceptTarget targetId s)) x"
    and "target_activating (deselectHost s) x"
    and "target_activating (fst (updateTargets_start s)) x"
    and "target_activating (updateTargets_resume result s) x"
    and "target_activating (discoveryUpdate md s) x"
    and "target_activating (onSearchChange v s) x"
  using assms
  by (auto simp: target_activating_def selectHost_def interceptTarget_def deselectHost_def
      updateTargets_start_def updateTargets_resume_def discoveryUpdate_def autorun_body_def
      onSearchChange_def Let_def split: option.splits HostState.splits)

subsection \<open>Discovery updates\<close>

lemma fridaHosts_discoveryUpdate:
  "fridaHosts (discoveryUpdate md s) = (case md of None \<Rightarrow> [] | Some hs \<Rightarrow> hs)"
  by (simp add: discoveryUpdate_def autorun_body_def deselectHost_def fridaHosts_def)

lemma selectedHostId_discoveryUpdate:
  "selectedHostId (discoveryUpdate md s) =
     (if \<not> falsy (selectedHostId s)
         \<and> the (selectedHostId s) \<notin> host_id ` set (case md of None \<Rightarrow> [] | Some hs \<Rightarrow> hs)
      then None else selectedHostId s)"
  by (cases "selectedHostId s")
     (auto simp: discoveryUpdate_def autorun_body_def deselectHost_def fridaHosts_def
        list_ex_iff image_iff)

subsection \<open>Claims about selection\<close>

text \<open>
  C1, as amended. On every discovery update, with a non-empty selected id: when that id
  is absent from the new host list, the update itself clears \<open>selectedHostId\<close>; when
  the id is still listed, \<open>selectedHostId\<close> is kept, whatever the host's state; and when
  every listed host with that id is unavailable (or none is listed), the derived
  \<open>selectedHost\<close> is undefined, so the component shows the host list again.
\<close>

theorem discoveryUpdate_selection:
  assumes "selectedHostId s = Some hid" and "hid \<noteq> []"
  shows "fridaHosts (discoveryUpdate md s) = (case md of None \<Rightarrow> [] | Some hs \<Rightarrow> hs)
    \<and> (hid \<notin> host_id ` set (fridaHosts (discoveryUpdate md s)) \<longrightarrow>
          selectedHostId (discoveryUpdate md s) = None)
    \<and> (hid \<in> host_id ` set (fridaHosts (discoveryUpdate md s)) \<longrightarrow>
          selectedHostId (discoveryUpdate md s) = Some hid)
    \<and> ((\<forall>h\<in>set (fridaHosts (discoveryUpdate md s)).
           host_id h = hid \<longrightarrow> host_state h = Unavailable) \<longrightarrow>
          selectedHost (discoveryUpdate md s) = None)"
proof -
  let ?s' = "discoveryUpdate md s"
  have hosts: "fridaHosts ?s' = (case md of None \<Rightarrow> [] | Some hs \<Rightarrow> hs)"
    by (rule fridaHosts_discoveryUpdate)
  have sel: "selectedHostId ?s' = (if hid \<notin> host_id ` set (fridaHosts ?s') then None else Some hid)"
    using assms by (simp add: selectedHostId_discoveryUpdate hosts)
  have un: "selectedHost ?s' = None"
    if "\<forall>h\<in>set (fridaHosts ?s'). host_id h = hid \<longrightarrow> host_state h = Unavailable"
  proof (rule selectedHost_None_if_all_unavailable)
    show "\<forall>h\<in>set (fridaHosts ?s'). Some (host_id h) = selectedHostId ?s' \<longrightarrow> host_state h = Unavailable"
      using that sel by (auto split: if_splits)
  qed
  from hosts sel un show ?thesis by simp
qed

theorem discoveryUpdate_selection_witness:
  "selectedHostId
      (discoveryUpdate (Some [\<lparr>host_id = ''B'', host_name = ''Nexus'', host_state = Available\<rparr>])
         \<lparr>metadata_hosts = Some [\<lparr>host_id = ''A'', host_name = ''Pixel'', host_state = Available\<rparr>],
          fridaTargets = [], inProgressHostIds = [], inProgressTargetIds = [],
          selectedHostId = Some ''A'', searchInput = ''''\<rparr>) = None
   \<and> selectedHost
      (discoveryUpdate (Some [\<lparr>host_id = ''A'', host_name = ''Pixel'', host_state = Unavailable\<rparr>])
         \<lparr>metadata_hosts = Some [\<lparr>host_id = ''A'', host_name = ''Pixel'', host_state = Available\<rparr>],
          fridaTargets = [], inProgressHostIds = [], inProgressTargetIds = [],
          selectedHostId = Some ''A'', searchInput = ''''\<rparr>) = None"
proof -
  let ?s = "\<lparr>metadata_hosts = Some [\<lparr>host_id = ''A'', host_name = ''Pixel'', host_state = Available\<rparr>],
          fridaTargets = [], inProgressHostIds = [], inProgressTargetIds = [],
          selectedHostId = Some ''A'', searchInput = ''''\<rparr>"
  have sel: "selectedHostId ?s = Some ''A''" and ne: "''A'' \<noteq> []"
    by simp_all
  note gone = discoveryUpdate_selection [OF sel ne,
      of "Some [\<lparr>host_id = ''B'', host_name = ''Nexus'', host_state = Available\<rparr>]"]
  note unavailable = discoveryUpdate_selection [OF sel ne,
      of "Some [\<lparr>host_id = ''A'', host_name = ''Pixel'', host_state = Unavailable\<rparr>]"]
  from gone have "selectedHostId
      (discoveryUpdate (Some [\<lparr>host_id = ''B'', host_name = ''Nexus'', host_state = Available\<rparr>]) ?s) = None"
    by simp
  moreover from unavailable have "selectedHost
      (discoveryUpdate (Some [\<lparr>host_id = ''A'', host_name = ''Pixel'', host_state = Unavailable\<rparr>]) ?s) = None"
    by simp
  ultimately show ?thesis by simp
qed

text \<open>
  C1 as stated fails: host A is selected and available; a discovery update reports A as
  unavailable; \<open>selectedHostId\<close> is not cleared.
\<close>

theorem discoveryUpdate_unavailable_keeps_selectedHostId:
  "\<not> selectedHostId
        (discoveryUpdate
           (Some [\<lparr>host_id = ''A'', host_name = ''Pixel'', host_state = Unavailable\<rparr>])
           \<lparr>metadata_hosts = Some [\<lparr>host_id = ''A'', host_name = ''Pixel'', host_state = Available\<rparr>],
          fridaTargets = [], inProgressHostIds = [], inProgressTargetIds = [],
          selectedHostId = Some ''A'', searchInput = ''''\<rparr>) = None"
  by (simp add: discoveryUpdate_def autorun_body_def fridaHosts_def)

subsection \<open>Claims about the in-progress arrays\<close>

text \<open>
  C2, as amended. When an activation settles, every occurrence of its identifier is
  removed from its in-progress array, and nothing else changes there: the entries for
  other identifiers keep their number and their order, and the other array is untouched.
  In particular, when two different targets are activated one after the other under a
  selected host, both are marked activating, and whichever settles first clears its own
  mark only; after both have settled neither is marked.
\<close>

theorem settle_pulls_own_id_only:
  "(\<forall>host t1 t2 oc1 oc2. selectedHost s = Some host \<and> t1 \<noteq> t2 \<longrightarrow>
         (let s2 = fst (interceptTarget t2 (fst (interceptTarget t1 s)));
              first1 = settle oc1 (Intercept (host_id host) t1) s2;
              first2 = settle oc2 (Intercept (host_id host) t2) s2
          in target_activating s2 t1 \<and> target_activating s2 t2
             \<and> \<not> target_activating first1 t1 \<and> target_activating first1 t2
             \<and> target_activating first2 t1 \<and> \<not> target_activating first2 t2
             \<and> \<not> target_activating (settle oc2 (Intercept (host_id host) t2) first1) t1
             \<and> \<not> target_activating (settle oc2 (Intercept (host_id host) t2) first1) t2
             \<and> \<not> target_activating (settle oc1 (Intercept (host_id host) t1) first2) t1
             \<and> \<not> target_activating (settle oc1 (Intercept (host_id host) t1) first2) t2))
   \<and> inProgressTargetIds (settle oc (Intercept hid tid) s) = filter (\<lambda>x. x \<noteq> tid) (inProgressTargetIds s)
   \<and> inProgressHostIds (settle oc (Intercept hid tid) s) = inProgressHostIds s
   \<and> inProgressHostIds (settle oc (Launch hid) s) = filter (\<lambda>x. x \<noteq> hid) (inProgressHostIds s)
   \<and> inProgressHostIds (settle oc (Setup hid) s) = filter (\<lambda>x. x \<noteq> hid) (inProgressHostIds s)
   \<and> inProgressTargetIds (settle oc (Launch hid) s) = inProgressTargetIds s
   \<and> inProgressTargetIds (settle oc (Setup hid) s) = inProgressTargetIds s
   \<and> count_list (inProgressTargetIds (settle oc (Intercept hid tid) s)) tid = 0
   \<and> count_list (inProgressHostIds (settle oc (Launch hid) s)) hid = 0
   \<and> count_list (inProgressHostIds (settle oc (Setup hid) s)) hid = 0
   \<and> (\<forall>w. w \<noteq> tid \<longrightarrow>
         count_list (inProgressTargetIds (settle oc (Intercept hid tid) s)) w
           = count_list (inProgressTargetIds s) w)
   \<and> (\<forall>w. w \<noteq> hid \<longrightarrow>
         count_list (inProgressHostIds (settle oc (Launch hid) s)) w = count_list (inProgressHostIds s) w
         \<and> count_list (inProgressHostIds (settle oc (Setup hid) s)) w = count_list (inProgressHostIds s) w)"
proof -
  have two: "\<forall>host t1 t2 oc1 oc2. selectedHost s = Some host \<and> t1 \<noteq> t2 \<longrightarrow>
         (let s2 = fst (interceptTarget t2 (fst (interceptTarget t1 s)));
              first1 = settle oc1 (Intercept (host_id host) t1) s2;
              first2 = settle oc2 (Intercept (host_id host) t2) s2
          in target_activating s2 t1 \<and> target_activating s2 t2
             \<and> \<not> target_activating first1 t1 \<and> target_activating first1 t2
             \<and> target_activating first2 t1 \<and> \<not> target_activating first2 t2
             \<and> \<not> target_activating (settle oc2 (Intercept (host_id host) t2) first1) t1
             \<and> \<not> target_activating (settle oc2 (Intercept (host_id host) t2) first1) t2
             \<and> \<not> target_activating (settle oc1 (Intercept (host_id host) t1) first2) t1
             \<and> \<not> target_activating (settle oc1 (Intercept (host_id host) t1) first2) t2)"
    by (auto simp: interceptTarget_Some settle_eq target_activating_def set_pull Let_def)
  have lists: "inProgressTargetIds (settle oc (Intercept hid tid) s) = filter (\<lambda>x. x \<noteq> tid) (inProgressTargetIds s)"
    "inProgressHostIds (settle oc (Intercept hid tid) s) = inProgressHostIds s"
    "inProgressHostIds (settle oc (Launch hid) s) = filter (\<lambda>x. x \<noteq> hid) (inProgressHostIds s)"
    "inProgressHostIds (settle oc (Setup hid) s) = filter (\<lambda>x. x \<noteq> hid) (inProgressHostIds s)"
    "inProgressTargetIds (settle oc (Launch hid) s) = inProgressTargetIds s"
    "inProgressTargetIds (settle oc (Setup hid) s) = inProgressTargetIds s"
    by (simp_all add: settle_eq pull_def)
  have gone: "count_list (inProgressTargetIds (settle oc (Intercept hid tid) s)) tid = 0"
    "count_list (inProgressHostIds (settle oc (Launch hid) s)) hid = 0"
    "count_list (inProgressHostIds (settle oc (Setup hid) s)) hid = 0"
    by (simp_all add: settle_eq count_list_pull_self)
  have counts: "\<forall>w. w \<noteq> tid \<longrightarrow>
         count_list (inProgressTargetIds (settle oc (Intercept hid tid) s)) w
           = count_list (inProgressTargetIds s) w"
    "\<forall>w. w \<noteq> hid \<longrightarrow>
         count_list (inProgressHostIds (settle oc (Launch hid) s)) w = count_list (inProgressHostIds s) w
         \<and> count_list (inProgressHostIds (settle oc (Setup hid) s)) w = count_list (inProgressHostIds s) w"
    by (simp_all add: settle_eq count_list_pull_other)
  from two lists gone counts show ?thesis by blast
qed

theorem settle_pulls_own_id_only_witness:
  "target_activating (fst (interceptTarget ''app.two'' (fst (interceptTarget ''app.one''
      \<lparr>metadata_hosts = Some [\<lparr>host_id = ''A'', host_name = ''Pixel'', host_state = Available\<rparr>],
          fridaTargets = [], inProgressHostIds = [], inProgressTargetIds = [],
          selectedHostId = Some ''A'', searchInput = ''''\<rparr>)))) ''app.one''
   \<and> target_activating (fst (interceptTarget ''app.two'' (fst (interceptTarget ''app.one''
      \<lparr>metadata_hosts = Some [\<lparr>host_id = ''A'', host_name = ''Pixel'', host_state = Available\<rparr>],
          fridaTargets = [], inProgressHostIds = [], inProgressTargetIds = [],
          selectedHostId = Some ''A'', searchInput = ''''\<rparr>)))) ''app.two''
   \<and> \<not> target_activating (settle Rejected (Intercept ''A'' ''app.one'')
      (fst (interceptTarget ''app.two'' (fst (interceptTarget ''app.one''
      \<lparr>metadata_hosts = Some [\<lparr>host_id = ''A'', host_name = ''Pixel'', host_state = Available\<rparr>],
          fridaTargets = [], inProgressHostIds = [], inProgressTargetIds = [],
          selectedHostId = Some ''A'', searchInput = ''''\<rparr>))))) ''app.one''
   \<and> target_activating (settle Rejected (Intercept ''A'' ''app.one'')
      (fst (interceptTarget ''app.two'' (fst (interceptTarget ''app.one''
      \<lparr>metadata_hosts = Some [\<lparr>host_id = ''A'', host_name = ''Pixel'', host_state = Available\<rparr>],
          fridaTargets = [], inProgressHostIds = [], inProgressTargetIds = [],
          selectedHostId = Some ''A'', searchInput = ''''\<rparr>))))) ''app.two''"
proof -
  let ?a = "\<lparr>host_id = ''A'', host_name = ''Pixel'', host_state = Available\<rparr>"
  let ?s = "\<lparr>metadata_hosts = Some [\<lparr>host_id = ''A'', host_name = ''Pixel'', host_state = Available\<rparr>],
          fridaTargets = [], inProgressHostIds = [], inProgressTargetIds = [],
          selectedHostId = Some ''A'', searchInput = ''''\<rparr>"
  have pre: "selectedHost ?s = Some ?a \<and> ''app.one'' \<noteq> ''app.two''"
    by (simp add: selectedHost_def fridaHosts_def)
  from settle_pulls_own_id_only [of ?s Resolved "''A''" "''app.one''", THEN conjunct1,
      rule_format, OF pre, of Rejected Resolved]
  show ?thesis by (simp add: Let_def)
qed

text \<open>
  C2 as stated fails: the same target is activated twice under the selected host A, so
  its id stands twice in \<open>inProgressTargetIds\<close>; when one of the two activations settles,
  both entries go, not exactly one.
\<close>

theorem settle_removes_every_occurrence:
  "count_list (inProgressTargetIds
       (settle Resolved (Intercept ''A'' ''com.example'')
          (fst (interceptTarget ''com.example'' (fst (interceptTarget ''com.example''
             \<lparr>metadata_hosts = Some [\<lparr>host_id = ''A'', host_name = ''Pixel'', host_state = Available\<rparr>],
          fridaTargets = [], inProgressHostIds = [], inProgressTargetIds = [],
          selectedHostId = Some ''A'', searchInput = ''''\<rparr>)))))) ''com.example''
   \<noteq> count_list (inProgressTargetIds
          (fst (interceptTarget ''com.example'' (fst (interceptTarget ''com.example''
             \<lparr>metadata_hosts = Some [\<lparr>host_id = ''A'', host_name = ''Pixel'', host_state = Available\<rparr>],
          fridaTargets = [], inProgressHostIds = [], inProgressTargetIds = [],
          selectedHostId = Some ''A'', searchInput = ''''\<rparr>))))) ''com.example'' - 1"
  by (simp add: interceptTarget_def selectedHost_def fridaHosts_def Let_def pull_def)

subsection \<open>Claims about activation\<close>

text \<open>
  C3. When the host that \<open>selectHost\<close> resolves for the id is in state launch-required
  (or setup-required), \<open>selectHost\<close> pushes the id onto \<open>inProgressHostIds\<close> and calls
  the activation service once, with the launch (or the set-up) action for that id; the
  component recorded at the call already holds the id. With a valid selected host
  \<open>interceptTarget\<close> pushes the target id and calls the service once with
  \<^verbatim>\<open>{action: 'intercept', hostId, targetId}\<close>, the host id being the selected one; with
  no valid selected host it makes no call and leaves the component as it is. Neither
  action makes any other call of the activation service. When the promise settles,
  resolved or rejected, the id is no longer in the array. Until then the mark stays: it
  is cleared exactly by the settling of an activation for the same identifier, and no
  other action of the component removes it.
\<close>

theorem activation_marked_until_settled:
  "(\<forall>host. selectedHost (s\<lparr>selectedHostId := Some hostId\<rparr>) = Some host
        \<and> host_state host = LaunchRequired \<longrightarrow>
      selectHost hostId s =
        (s\<lparr>selectedHostId := Some hostId, inProgressHostIds := inProgressHostIds s @ [hostId]\<rparr>,
         [ActivateInterceptor (Launch hostId)
            (s\<lparr>selectedHostId := Some hostId, inProgressHostIds := inProgressHostIds s @ [hostId]\<rparr>)])
      \<and> host_activating
            (s\<lparr>selectedHostId := Some hostId, inProgressHostIds := inProgressHostIds s @ [hostId]\<rparr>)
            hostId)
   \<and> (\<forall>host. selectedHost (s\<lparr>selectedHostId := Some hostId\<rparr>) = Some host
        \<and> host_state host = SetupRequired \<longrightarrow>
      selectHost hostId s =
        (s\<lparr>selectedHostId := Some hostId, inProgressHostIds := inProgressHostIds s @ [hostId]\<rparr>,
         [ActivateInterceptor (Setup hostId)
            (s\<lparr>selectedHostId := Some hostId, inProgressHostIds := inProgressHostIds s @ [hostId]\<rparr>)])
      \<and> host_activating
            (s\<lparr>selectedHostId := Some hostId, inProgressHostIds := inProgressHostIds s @ [hostId]\<rparr>)
            hostId)
   \<and> (\<forall>host. selectedHost s = Some host \<longrightarrow>
         selectedHostId s = Some (host_id host)
         \<and> interceptTarget targetId s =
             (s\<lparr>inProgressTargetIds := inProgressTargetIds s @ [targetId]\<rparr>,
              [ActivateInterceptor (Intercept (host_id host) targetId)
                 (s\<lparr>inProgressTargetIds := inProgressTargetIds s @ [targetId]\<rparr>)])
         \<and> target_activating (s\<lparr>inProgressTargetIds := inProgressTargetIds s @ [targetId]\<rparr>) targetId)
   \<and> (selectedHost s = None \<longrightarrow> interceptTarget targetId s = (s, []))
   \<and> (\<forall>options at_call. ActivateInterceptor options at_call \<in> set (snd (selectHost hostId s)) \<longrightarrow>
       (options = Launch hostId \<or> options = Setup hostId)
       \<and> at_call = fst (selectHost hostId s) \<and> host_activating at_call hostId)
   \<and> (\<forall>options at_call. ActivateInterceptor options at_call \<in> set (snd (interceptTarget targetId s)) \<longrightarrow>
       (\<exists>host. selectedHost s = Some host \<and> options = Intercept (host_id host) targetId)
       \<and> at_call = fst (interceptTarget targetId s) \<and> target_activating at_call targetId)
   \<and> \<not> host_activating (settle oc (Launch hostId) t) hostId
   \<and> \<not> host_activating (settle oc (Setup hostId) t) hostId
   \<and> \<not> target_activating (settle oc (Intercept hid targetId) t) targetId
   \<and> (\<forall>options x. host_activating (settle oc options t) x \<longleftrightarrow>
         host_activating t x \<and> options \<noteq> Launch x \<and> options \<noteq> Setup x)
   \<and> (\<forall>options x. target_activating (settle oc options t) x \<longleftrightarrow>
         target_activating t x \<and> (\<forall>h. options \<noteq> Intercept h x))
   \<and> (\<forall>x. host_activating t x \<longrightarrow>
         host_activating (fst (selectHost hostId t)) x
         \<and> host_activating (fst (interceptTarget targetId t)) x
         \<and> host_activating (deselectHost t) x
         \<and> host_activating (fst (updateTargets_start t)) x
         \<and> host_activating (updateTargets_resume result t) x
         \<and> host_activating (discoveryUpdate md t) x
         \<and> host_activating (onSearchChange v t) x)
   \<and> (\<forall>x. target_activating t x \<longrightarrow>
         target_activating (fst (selectHost hostId t)) x
         \<and> target_activating (fst (interceptTarget targetId t)) x
         \<and> target_activating (deselectHost t) x
         \<and> target_activating (fst (updateTargets_start t)) x
         \<and> target_activating (updateTargets_resume result t) x
         \<and> target_activating (discoveryUpdate md t) x
         \<and> target_activating (onSearchChange v t) x)"
proof -
  have launching: "\<forall>host. selectedHost (s\<lparr>selectedHostId := Some hostId\<rparr>) = Some host
        \<and> host_state host = LaunchRequired \<longrightarrow>
      selectHost hostId s =
        (s\<lparr>selectedHostId := Some hostId, inProgressHostIds := inProgressHostIds s @ [hostId]\<rparr>,
         [ActivateInterceptor (Launch hostId)
            (s\<lparr>selectedHostId := Some hostId, inProgressHostIds := inProgressHostIds s @ [hostId]\<rparr>)])
      \<and> host_activating
            (s\<lparr>selectedHostId := Some hostId, inProgressHostIds := inProgressHostIds s @ [hostId]\<rparr>)
            hostId"
    by (auto simp: selectHost_LaunchRequired host_activating_def)
  have installing: "\<forall>host. selectedHost (s\<lparr>selectedHostId := Some hostId\<rparr>) = Some host
        \<and> host_state host = SetupRequired \<longrightarrow>
      selectHost hostId s =
        (s\<lparr>selectedHostId := Some hostId, inProgressHostIds := inProgressHostIds s @ [hostId]\<rparr>,
         [ActivateInterceptor (Setup hostId)
            (s\<lparr>selectedHostId := Some hostId, inProgressHostIds := inProgressHostIds s @ [hostId]\<rparr>)])
      \<and> host_activating
            (s\<lparr>selectedHostId := Some hostId, inProgressHostIds := inProgressHostIds s @ [hostId]\<rparr>)
            hostId"
    by (auto simp: selectHost_SetupRequired host_activating_def)
  have intercepting: "\<forall>host. selectedHost s = Some host \<longrightarrow>
         selectedHostId s = Some (host_id host)
         \<and> interceptTarget targetId s =
             (s\<lparr>inProgressTargetIds := inProgressTargetIds s @ [targetId]\<rparr>,
              [ActivateInterceptor (Intercept (host_id host) targetId)
                 (s\<lparr>inProgressTargetIds := inProgressTargetIds s @ [targetId]\<rparr>)])
         \<and> target_activating (s\<lparr>inProgressTargetIds := inProgressTargetIds s @ [targetId]\<rparr>) targetId"
    by (auto simp: interceptTarget_Some target_activating_def dest: selectedHost_SomeD)
  have no_host: "selectedHost s = None \<longrightarrow> interceptTarget targetId s = (s, [])"
    by (simp add: interceptTarget_None)
  have calls1: "\<forall>options at_call. ActivateInterceptor options at_call \<in> set (snd (selectHost hostId s)) \<longrightarrow>
       (options = Launch hostId \<or> options = Setup hostId)
       \<and> at_call = fst (selectHost hostId s) \<and> host_activating at_call hostId"
    using selectHost_calls by blast
  have calls2: "\<forall>options at_call. ActivateInterceptor options at_call \<in> set (snd (interceptTarget targetId s)) \<longrightarrow>
       (\<exists>host. selectedHost s = Some host \<and> options = Intercept (host_id host) targetId)
       \<and> at_call = fst (interceptTarget targetId s) \<and> target_activating at_call targetId"
    using interceptTarget_calls by blast
  have cleared: "\<not> host_activating (settle oc (Launch hostId) t) hostId"
    "\<not> host_activating (settle oc (Setup hostId) t) hostId"
    "\<not> target_activating (settle oc (Intercept hid targetId) t) targetId"
    by (simp_all add: host_activating_settle target_activating_settle)
  have exactly: "\<forall>options x. host_activating (settle oc options t) x \<longleftrightarrow>
         host_activating t x \<and> options \<noteq> Launch x \<and> options \<noteq> Setup x"
    "\<forall>options x. target_activating (settle oc options t) x \<longleftrightarrow>
         target_activating t x \<and> (\<forall>h. options \<noteq> Intercept h x)"
    by (simp_all add: host_activating_settle target_activating_settle)
  have kept_hosts: "\<forall>x. host_activating t x \<longrightarrow>
         host_activating (fst (selectHost hostId t)) x
         \<and> host_activating (fst (interceptTarget targetId t)) x
         \<and> host_activating (deselectHost t) x
         \<and> host_activating (fst (updateTargets_start t)) x
         \<and> host_activating (updateTargets_resume result t) x
         \<and> host_activating (discoveryUpdate md t) x
         \<and> host_activating (onSearchChange v t) x"
    by (simp add: host_marks_kept)
  have kept_targets: "\<forall>x. target_activating t x \<longrightarrow>
         target_activating (fst (selectHost hostId t)) x
         \<and> target_activating (fst (interceptTarget targetId t)) x
         \<and> target_activating (deselectHost t) x
         \<and> target_activating (fst (updateTargets_start t)) x
         \<and> target_activating (updateTargets_resume result t) x
         \<and> target_activating (discoveryUpdate md t) x
         \<and> target_activating (onSearchChange v t) x"
    by (simp add: target_marks_kept)
  show ?thesis
    by (intro conjI launching installing intercepting no_host calls1 calls2 cleared exactly
        kept_hosts kept_targets)
qed

theorem activation_marked_until_settled_witness:
  "selectHost ''A''
      \<lparr>metadata_hosts = Some [\<lparr>host_id = ''A'', host_name = ''Pixel'', host_state = LaunchRequired\<rparr>],
       fridaTargets = [], inProgressHostIds = [], inProgressTargetIds = [],
       selectedHostId = None, searchInput = ''''\<rparr>
     = (\<lparr>metadata_hosts = Some [\<lparr>host_id = ''A'', host_name = ''Pixel'', host_state = LaunchRequired\<rparr>],
       fridaTargets = [], inProgressHostIds = [''A''], inProgressTargetIds = [],
       selectedHostId = Some ''A'', searchInput = ''''\<rparr>,
        [ActivateInterceptor (Launch ''A'')
          \<lparr>metadata_hosts = Some [\<lparr>host_id = ''A'', host_name = ''Pixel'', host_state = LaunchRequired\<rparr>],
       fridaTargets = [], inProgressHostIds = [''A''], inProgressTargetIds = [],
       selectedHostId = Some ''A'', searchInput = ''''\<rparr>])
   \<and> host_activating
        \<lparr>metadata_hosts = Some [\<lparr>host_id = ''A'', host_name = ''Pixel'', host_state = LaunchRequired\<rparr>],
       fridaTargets = [], inProgressHostIds = [''A''], inProgressTargetIds = [],
       selectedHostId = Some ''A'', searchInput = ''''\<rparr> ''A''
   \<and> \<not> host_activating (settle Rejected (Launch ''A'')
        \<lparr>metadata_hosts = Some [\<lparr>host_id = ''A'', host_name = ''Pixel'', host_state = LaunchRequired\<rparr>],
       fridaTargets = [], inProgressHostIds = [''A''], inProgressTargetIds = [],
       selectedHostId = Some ''A'', searchInput = ''''\<rparr>) ''A''
   \<and> interceptTarget ''com.example''
      \<lparr>metadata_hosts = Some [\<lparr>host_id = ''A'', host_name = ''Pixel'', host_state = Unavailable\<rparr>],
       fridaTargets = [], inProgressHostIds = [], inProgressTargetIds = [],
       selectedHostId = Some ''A'', searchInput = ''''\<rparr>
     = (\<lparr>metadata_hosts = Some [\<lparr>host_id = ''A'', host_name = ''Pixel'', host_state = Unavailable\<rparr>],
       fridaTargets = [], inProgressHostIds = [], inProgressTargetIds = [],
       selectedHostId = Some ''A'', searchInput = ''''\<rparr>, [])
   \<and> interceptTarget ''com.example''
      \<lparr>metadata_hosts = Some [\<lparr>host_id = ''A'', host_name = ''Pixel'', host_state = Available\<rparr>],
       fridaTargets = [], inProgressHostIds = [], inProgressTargetIds = [],
       selectedHostId = Some ''A'', searchInput = ''''\<rparr>
     = (\<lparr>metadata_hosts = Some [\<lparr>host_id = ''A'', host_name = ''Pixel'', host_state = Available\<rparr>],
       fridaTargets = [], inProgressHostIds = [], inProgressTargetIds = [''com.example''],
       selectedHostId = Some ''A'', searchInput = ''''\<rparr>,
        [ActivateInterceptor (Intercept ''A'' ''com.example'')
          \<lparr>metadata_hosts = Some [\<lparr>host_id = ''A'', host_name = ''Pixel'', host_state = Available\<rparr>],
       fridaTargets = [], inProgressHostIds = [], inProgressTargetIds = [''com.example''],
       selectedHostId = Some ''A'', searchInput = ''''\<rparr>])
   \<and> target_activating
        \<lparr>metadata_hosts = Some [\<lparr>host_id = ''A'', host_name = ''Pixel'', host_state = Available\<rparr>],
       fridaTargets = [], inProgressHostIds = [], inProgressTargetIds = [''com.example''],
       selectedHostId = Some ''A'', searchInput = ''''\<rparr> ''com.example''
   \<and> \<not> target_activating (settle Resolved (Intercept ''A'' ''com.example'')
        \<lparr>metadata_hosts = Some [\<lparr>host_id = ''A'', host_name = ''Pixel'', host_state = Available\<rparr>],
       fridaTargets = [], inProgressHostIds = [], inProgressTargetIds = [''com.example''],
       selectedHostId = Some ''A'', searchInput = ''''\<rparr>) ''com.example''"
proof -
  let ?l = "\<lparr>metadata_hosts = Some [\<lparr>host_id = ''A'', host_name = ''Pixel'', host_state = LaunchRequired\<rparr>],
       fridaTargets = [], inProgressHostIds = [], inProgressTargetIds = [],
       selectedHostId = None, searchInput = ''''\<rparr>"
  let ?l1 = "\<lparr>metadata_hosts = Some [\<lparr>host_id = ''A'', host_name = ''Pixel'', host_state = LaunchRequired\<rparr>],
       fridaTargets = [], inProgressHostIds = [''A''], inProgressTargetIds = [],
       selectedHostId = Some ''A'', searchInput = ''''\<rparr>"
  let ?u = "\<lparr>metadata_hosts = Some [\<lparr>host_id = ''A'', host_name = ''Pixel'', host_state = Unavailable\<rparr>],
       fridaTargets = [], inProgressHostIds = [], inProgressTargetIds = [],
       selectedHostId = Some ''A'', searchInput = ''''\<rparr>"
  let ?a = "\<lparr>host_id = ''A'', host_name = ''Pixel'', host_state = Available\<rparr>"
  let ?s = "\<lparr>metadata_hosts = Some [\<lparr>host_id = ''A'', host_name = ''Pixel'', host_state = Available\<rparr>],
       fridaTargets = [], inProgressHostIds = [], inProgressTargetIds = [],
       selectedHostId = Some ''A'', searchInput = ''''\<rparr>"
  let ?s1 = "\<lparr>metadata_hosts = Some [\<lparr>host_id = ''A'', host_name = ''Pixel'', host_state = Available\<rparr>],
       fridaTargets = [], inProgressHostIds = [], inProgressTargetIds = [''com.example''],
       selectedHostId = Some ''A'', searchInput = ''''\<rparr>"
  have found: "selectedHost (?l\<lparr>selectedHostId := Some ''A''\<rparr>)
        = Some \<lparr>host_id = ''A'', host_name = ''Pixel'', host_state = LaunchRequired\<rparr>
      \<and> host_state \<lparr>host_id = ''A'', host_name = ''Pixel'', host_state = LaunchRequired\<rparr>
        = LaunchRequired"
    by (simp add: selectedHost_def fridaHosts_def)
  have none: "selectedHost ?u = None" and some: "selectedHost ?s = Some ?a"
    by (simp_all add: selectedHost_def fridaHosts_def)
  note on_launch = activation_marked_until_settled
    [where s = "?l" and hostId = "''A''" and targetId = "''com.example''"
      and oc = Rejected and t = "?l1" and hid = "''A''" and result = None and md = None and v = "[]"]
  note no_host = activation_marked_until_settled
    [where s = "?u" and hostId = "''A''" and targetId = "''com.example''"
      and oc = Resolved and t = "?s1" and hid = "''A''" and result = None and md = None and v = "[]"]
  note with_host = activation_marked_until_settled
    [where s = "?s" and hostId = "''A''" and targetId = "''com.example''"
      and oc = Resolved and t = "?s1" and hid = "''A''" and result = None and md = None and v = "[]"]
  from on_launch [THEN conjunct1, rule_format, OF found]
  have 1: "selectHost ''A'' ?l = (?l1, [ActivateInterceptor (Launch ''A'') ?l1])
      \<and> host_activating ?l1 ''A''"
    by simp
  from on_launch [THEN conjunct2, THEN conjunct2, THEN conjunct2, THEN conjunct2, THEN conjunct2,
      THEN conjunct2, THEN conjunct1]
  have 2: "\<not> host_activating (settle Rejected (Launch ''A'') ?l1) ''A''" .
  from no_host [THEN conjunct2, THEN conjunct2, THEN conjunct2, THEN conjunct1] none
  have 3: "interceptTarget ''com.example'' ?u = (?u, [])"
    by simp
  from with_host [THEN conjunct2, THEN conjunct2, THEN conjunct1, rule_format, OF some]
  have 4: "interceptTarget ''com.example'' ?s
        = (?s1, [ActivateInterceptor (Intercept ''A'' ''com.example'') ?s1])
      \<and> target_activating ?s1 ''com.example''"
    by simp
  from with_host [THEN conjunct2, THEN conjunct2, THEN conjunct2, THEN conjunct2, THEN conjunct2,
      THEN conjunct2, THEN conjunct2, THEN conjunct2, THEN conjunct1]
  have 5: "\<not> target_activating (settle Resolved (Intercept ''A'' ''com.example'') ?s1) ''com.example''" .
  from 1 2 3 4 5 show ?thesis by simp
qed

text \<open>
  C4, as amended. Let the host list have distinct ids and let \<open>h\<close> be a listed host
  with a non-empty id. If \<open>h\<close> is in state launch-required or setup-required, then
  \<open>selectHost\<close> with its id marks the host activating and calls the activation service
  once, with the launch or the set-up action for that id; the call also sets
  \<open>selectedHostId\<close> to the id, so that \<open>selectedHost\<close> is \<open>h\<close> afterwards; the loaded
  targets and the search input are unchanged.
\<close>

theorem selectHost_launch_setup_activates:
  assumes "distinct (map host_id (fridaHosts s))" and "h \<in> set (fridaHosts s)"
    and "host_id h \<noteq> []"
  shows "(host_state h = LaunchRequired \<longrightarrow>
            selectHost (host_id h) s =
              (s\<lparr>selectedHostId := Some (host_id h),
                  inProgressHostIds := inProgressHostIds s @ [host_id h]\<rparr>,
               [ActivateInterceptor (Launch (host_id h))
                  (s\<lparr>selectedHostId := Some (host_id h),
                      inProgressHostIds := inProgressHostIds s @ [host_id h]\<rparr>)]))
       \<and> (host_state h = SetupRequired \<longrightarrow>
            selectHost (host_id h) s =
              (s\<lparr>selectedHostId := Some (host_id h),
                  inProgressHostIds := inProgressHostIds s @ [host_id h]\<rparr>,
               [ActivateInterceptor (Setup (host_id h))
                  (s\<lparr>selectedHostId := Some (host_id h),
                      inProgressHostIds := inProgressHostIds s @ [host_id h]\<rparr>)]))
       \<and> (host_state h = LaunchRequired \<or> host_state h = SetupRequired \<longrightarrow>
            host_activating (fst (selectHost (host_id h) s)) (host_id h)
            \<and> selectedHostId (fst (selectHost (host_id h) s)) = Some (host_id h)
            \<and> selectedHost (fst (selectHost (host_id h) s)) = Some h
            \<and> fridaTargets (fst (selectHost (host_id h) s)) = fridaTargets s
            \<and> searchInput (fst (selectHost (host_id h) s)) = searchInput s)"
proof -
  note sel = selectedHost_after_select[OF assms]
  have launching: "selectHost (host_id h) s =
              (s\<lparr>selectedHostId := Some (host_id h),
                  inProgressHostIds := inProgressHostIds s @ [host_id h]\<rparr>,
               [ActivateInterceptor (Launch (host_id h))
                  (s\<lparr>selectedHostId := Some (host_id h),
                      inProgressHostIds := inProgressHostIds s @ [host_id h]\<rparr>)])"
    if "host_state h = LaunchRequired"
    using that sel by (simp add: selectHost_def Let_def)
  have installing: "selectHost (host_id h) s =
              (s\<lparr>selectedHostId := Some (host_id h),
                  inProgressHostIds := inProgressHostIds s @ [host_id h]\<rparr>,
               [ActivateInterceptor (Setup (host_id h))
                  (s\<lparr>selectedHostId := Some (host_id h),
                      inProgressHostIds := inProgressHostIds s @ [host_id h]\<rparr>)])"
    if "host_state h = SetupRequired"
    using that sel by (simp add: selectHost_def Let_def)
  have keep: "selectedHost (s\<lparr>selectedHostId := Some (host_id h),
                  inProgressHostIds := inProgressHostIds s @ [host_id h]\<rparr>) = Some h"
    if "host_state h \<noteq> Unavailable"
    using that sel by simp
  show ?thesis
    using launching installing keep by (auto simp: host_activating_def)
qed

theorem selectHost_launch_setup_activates_witness:
  "selectHost ''B''
      \<lparr>metadata_hosts = Some [\<lparr>host_id = ''A'', host_name = ''Pixel'', host_state = Available\<rparr>,
                              \<lparr>host_id = ''B'', host_name = ''Nexus'', host_state = SetupRequired\<rparr>],
       fridaTargets = [], inProgressHostIds = [], inProgressTargetIds = [],
       selectedHostId = None, searchInput = ''chrome''\<rparr>
   = (\<lparr>metadata_hosts = Some [\<lparr>host_id = ''A'', host_name = ''Pixel'', host_state = Available\<rparr>,
                              \<lparr>host_id = ''B'', host_name = ''Nexus'', host_state = SetupRequired\<rparr>],
       fridaTargets = [], inProgressHostIds = [''B''], inProgressTargetIds = [],
       selectedHostId = Some ''B'', searchInput = ''chrome''\<rparr>,
      [ActivateInterceptor (Setup ''B'')
        \<lparr>metadata_hosts = Some [\<lparr>host_id = ''A'', host_name = ''Pixel'', host_state = Available\<rparr>,
                              \<lparr>host_id = ''B'', host_name = ''Nexus'', host_state = SetupRequired\<rparr>],
         fridaTargets = [], inProgressHostIds = [''B''], inProgressTargetIds = [],
         selectedHostId = Some ''B'', searchInput = ''chrome''\<rparr>])"
proof -
  let ?b = "\<lparr>host_id = ''B'', host_name = ''Nexus'', host_state = SetupRequired\<rparr>"
  let ?s = "\<lparr>metadata_hosts = Some [\<lparr>host_id = ''A'', host_name = ''Pixel'', host_state = Available\<rparr>,
                              \<lparr>host_id = ''B'', host_name = ''Nexus'', host_state = SetupRequired\<rparr>],
       fridaTargets = [], inProgressHostIds = [], inProgressTargetIds = [],
       selectedHostId = None, searchInput = ''chrome''\<rparr>"
  have d: "distinct (map host_id (fridaHosts ?s))" and m: "?b \<in> set (fridaHosts ?s)"
    and ne: "host_id ?b \<noteq> []"
    by (simp_all add: fridaHosts_def)
  from selectHost_launch_setup_activates [OF d m ne] show ?thesis by simp
qed

text \<open>
  C4 as stated fails in its last part: nothing is selected and host A is in state
  launch-required; after \<open>selectHost\<close> with A's id the selection is no longer empty,
  and once the reaction to the change has run, A is the selected host.
\<close>

theorem selectHost_launch_required_changes_selection:
  "\<not> selectedHostId
        (fst (selectHost ''A''
           \<lparr>metadata_hosts = Some [\<lparr>host_id = ''A'', host_name = ''Pixel'', host_state = LaunchRequired\<rparr>],
            fridaTargets = [], inProgressHostIds = [], inProgressTargetIds = [],
            selectedHostId = None, searchInput = ''''\<rparr>)) = None
   \<and> selectedHost
        (autorun_body (fst (selectHost ''A''
           \<lparr>metadata_hosts = Some [\<lparr>host_id = ''A'', host_name = ''Pixel'', host_state = LaunchRequired\<rparr>],
            fridaTargets = [], inProgressHostIds = [], inProgressTargetIds = [],
            selectedHostId = None, searchInput = ''''\<rparr>)))
       = Some \<lparr>host_id = ''A'', host_name = ''Pixel'', host_state = LaunchRequired\<rparr>"
  by (simp add: selectHost_def selectedHost_def fridaHosts_def autorun_body_def Let_def)

subsection \<open>Claims about the target list\<close>

text \<open>
  C5, as amended. A target-list response is applied as it arrives, with no check against
  the current selection: \<open>fridaTargets\<close> becomes the targets of the response, or the
  empty list for an undefined response, and no other field changes. The selection is
  looked at only before the request goes out: with no valid selected host the targets
  are emptied and no request is made; with one, the request is made for the id of the
  selected host and the component is left as it is.
\<close>

theorem updateTargets_applies_any_response:
  "fridaTargets (updateTargets_resume result s) = (case result of None \<Rightarrow> [] | Some targets \<Rightarrow> targets)
   \<and> updateTargets_resume result s = s\<lparr>fridaTargets := fridaTargets (updateTargets_resume result s)\<rparr>
   \<and> (selectedHost s = None \<longrightarrow> updateTargets_start s = (s\<lparr>fridaTargets := []\<rparr>, []))
   \<and> (\<forall>host. selectedHost s = Some host \<longrightarrow>
         updateTargets_start s = (s, [GetDetailedInterceptorMetadata (host_id host)])
         \<and> selectedHostId s = Some (host_id host))"
  by (auto simp: updateTargets_resume_def updateTargets_start_def dest: selectedHost_SomeD)

theorem updateTargets_applies_any_response_witness:
  "updateTargets_start
      \<lparr>metadata_hosts = Some [\<lparr>host_id = ''A'', host_name = ''Pixel'', host_state = Available\<rparr>],
       fridaTargets = [], inProgressHostIds = [], inProgressTargetIds = [],
       selectedHostId = Some ''A'', searchInput = ''''\<rparr>
     = (\<lparr>metadata_hosts = Some [\<lparr>host_id = ''A'', host_name = ''Pixel'', host_state = Available\<rparr>],
       fridaTargets = [], inProgressHostIds = [], inProgressTargetIds = [],
       selectedHostId = Some ''A'', searchInput = ''''\<rparr>, [GetDetailedInterceptorMetadata ''A''])
   \<and> updateTargets_start
      \<lparr>metadata_hosts = Some [\<lparr>host_id = ''A'', host_name = ''Pixel'', host_state = Available\<rparr>],
       fridaTargets = [\<lparr>target_id = ''com.example'', target_name = ''Example''\<rparr>],
       inProgressHostIds = [], inProgressTargetIds = [],
       selectedHostId = None, searchInput = ''''\<rparr>
     = (\<lparr>metadata_hosts = Some [\<lparr>host_id = ''A'', host_name = ''Pixel'', host_state = Available\<rparr>],
       fridaTargets = [], inProgressHostIds = [], inProgressTargetIds = [],
       selectedHostId = None, searchInput = ''''\<rparr>, [])"
proof -
  let ?a = "\<lparr>host_id = ''A'', host_name = ''Pixel'', host_state = Available\<rparr>"
  let ?s = "\<lparr>metadata_hosts = Some [\<lparr>host_id = ''A'', host_name = ''Pixel'', host_state = Available\<rparr>],
       fridaTargets = [], inProgressHostIds = [], inProgressTargetIds = [],
       selectedHostId = Some ''A'', searchInput = ''''\<rparr>"
  let ?n = "\<lparr>metadata_hosts = Some [\<lparr>host_id = ''A'', host_name = ''Pixel'', host_state = Available\<rparr>],
       fridaTargets = [\<lparr>target_id = ''com.example'', target_name = ''Example''\<rparr>],
       inProgressHostIds = [], inProgressTargetIds = [],
       selectedHostId = None, searchInput = ''''\<rparr>"
  have some: "selectedHost ?s = Some ?a" and none: "selectedHost ?n = None"
    by (simp_all add: selectedHost_def fridaHosts_def)
  from updateTargets_applies_any_response [of None ?s] some
  have "updateTargets_start ?s = (?s, [GetDetailedInterceptorMetadata ''A''])"
    by simp
  moreover from updateTargets_applies_any_response [of None ?n] none
  have "updateTargets_start ?n = (?n\<lparr>fridaTargets := []\<rparr>, [])"
    by simp
  ultimately show ?thesis by simp
qed

text \<open>
  C5 as stated fails: hosts A and B are available and A is selected. A refresh issues
  the request for A. Before the response arrives, B is selected. The response for A is
  then applied: B is the selected host, and \<open>fridaTargets\<close> holds the targets fetched
  for A.
\<close>

theorem stale_targets_response_is_applied:
  "snd (updateTargets_start
      \<lparr>metadata_hosts = Some [\<lparr>host_id = ''A'', host_name = ''Pixel'', host_state = Available\<rparr>,
                              \<lparr>host_id = ''B'', host_name = ''Nexus'', host_state = Available\<rparr>],
       fridaTargets = [], inProgressHostIds = [], inProgressTargetIds = [],
       selectedHostId = Some ''A'', searchInput = ''''\<rparr>) = [GetDetailedInterceptorMetadata ''A'']
   \<and> selectedHostId (updateTargets_resume (Some [\<lparr>target_id = ''app.on.A'', target_name = ''App on A''\<rparr>])
       (fst (selectHost ''B'' (fst (updateTargets_start
      \<lparr>metadata_hosts = Some [\<lparr>host_id = ''A'', host_name = ''Pixel'', host_state = Available\<rparr>,
                              \<lparr>host_id = ''B'', host_name = ''Nexus'', host_state = Available\<rparr>],
       fridaTargets = [], inProgressHostIds = [], inProgressTargetIds = [],
       selectedHostId = Some ''A'', searchInput = ''''\<rparr>))))) = Some ''B''
   \<and> fridaTargets (updateTargets_resume (Some [\<lparr>target_id = ''app.on.A'', target_name = ''App on A''\<rparr>])
       (fst (selectHost ''B'' (fst (updateTargets_start
      \<lparr>metadata_hosts = Some [\<lparr>host_id = ''A'', host_name = ''Pixel'', host_state = Available\<rparr>,
                              \<lparr>host_id = ''B'', host_name = ''Nexus'', host_state = Available\<rparr>],
       fridaTargets = [], inProgressHostIds = [], inProgressTargetIds = [],
       selectedHostId = Some ''A'', searchInput = ''''\<rparr>)))))
      = [\<lparr>target_id = ''app.on.A'', target_name = ''App on A''\<rparr>]"
  by (simp add: updateTargets_start_def updateTargets_resume_def selectHost_def selectedHost_def
      fridaHosts_def Let_def)

text \<open>
  C6, as amended. \<open>deselectHost\<close> can run in any state; after it no host id is selected
  and \<open>selectedHost\<close> is undefined, and the reaction to selection changes leaves that as
  it is. The loaded targets are still there right after \<open>deselectHost\<close>; the next run of
  \<open>updateTargets\<close> empties the list, and makes no request.
\<close>

theorem deselectHost_clears_selection_only:
  "selectedHostId (deselectHost s) = None
   \<and> selectedHost (deselectHost s) = None
   \<and> fridaTargets (deselectHost s) = fridaTargets s
   \<and> updateTargets_start (deselectHost s) = ((deselectHost s)\<lparr>fridaTargets := []\<rparr>, [])
   \<and> autorun_body (deselectHost s) = deselectHost s"
  by (simp add: deselectHost_def selectedHost_def updateTargets_start_def autorun_body_def)

theorem deselectHost_clears_selection_only_witness:
  "selectedHostId (deselectHost
      \<lparr>metadata_hosts = Some [\<lparr>host_id = ''A'', host_name = ''Pixel'', host_state = Available\<rparr>],
       fridaTargets = [\<lparr>target_id = ''com.example'', target_name = ''Example''\<rparr>],
       inProgressHostIds = [], inProgressTargetIds = [],
       selectedHostId = Some ''A'', searchInput = ''''\<rparr>) = None
   \<and> fridaTargets (fst (updateTargets_start (deselectHost
      \<lparr>metadata_hosts = Some [\<lparr>host_id = ''A'', host_name = ''Pixel'', host_state = Available\<rparr>],
       fridaTargets = [\<lparr>target_id = ''com.example'', target_name = ''Example''\<rparr>],
       inProgressHostIds = [], inProgressTargetIds = [],
       selectedHostId = Some ''A'', searchInput = ''''\<rparr>))) = []"
  using deselectHost_clears_selection_only
    [of "\<lparr>metadata_hosts = Some [\<lparr>host_id = ''A'', host_name = ''Pixel'', host_state = Available\<rparr>],
       fridaTargets = [\<lparr>target_id = ''com.example'', target_name = ''Example''\<rparr>],
       inProgressHostIds = [], inProgressTargetIds = [],
       selectedHostId = Some ''A'', searchInput = ''''\<rparr>"]
  by simp

text \<open>
  C6 as stated fails in its last part: host A is selected and one target is loaded;
  right after \<open>deselectHost\<close> the target list is not empty.
\<close>

theorem deselectHost_keeps_loaded_targets:
  "\<not> fridaTargets
        (deselectHost
           \<lparr>metadata_hosts = Some [\<lparr>host_id = ''A'', host_name = ''Pixel'', host_state = Available\<rparr>],
       fridaTargets = [\<lparr>target_id = ''com.example'', target_name = ''Example''\<rparr>],
       inProgressHostIds = [], inProgressTargetIds = [],
       selectedHostId = Some ''A'', searchInput = ''''\<rparr>) = []"
  by (simp add: deselectHost_def)

subsection \<open>The search input\<close>

text \<open>
  C10. Let the host list have distinct ids and let \<open>h\<close> be a listed host with a
  non-empty id. \<open>selectHost\<close> with the id of \<open>h\<close> empties the search input when \<open>h\<close> is
  available, and leaves the search input as it is when \<open>h\<close> is in any other state.
  Selecting an id that no listed host has leaves the search input as it is, too.
  For any host list: the search input is emptied exactly when the host that the
  component's own lookup finds for the id is available.
\<close>

theorem selectHost_resets_search_iff_available:
  "(distinct (map host_id (fridaHosts s)) \<and> h \<in> set (fridaHosts s) \<and> host_id h \<noteq> [] \<longrightarrow>
      searchInput (fst (selectHost (host_id h) s)) =
        (if host_state h = Available then [] else searchInput s))
   \<and> (hostId \<notin> host_id ` set (fridaHosts s) \<longrightarrow>
        searchInput (fst (selectHost hostId s)) = searchInput s)
   \<and> (\<forall>host. selectedHost (s\<lparr>selectedHostId := Some hostId\<rparr>) = Some host \<longrightarrow>
        searchInput (fst (selectHost hostId s)) =
          (if host_state host = Available then [] else searchInput s))
   \<and> (selectedHost (s\<lparr>selectedHostId := Some hostId\<rparr>) = None \<longrightarrow>
        searchInput (fst (selectHost hostId s)) = searchInput s)"
proof -
  have c: "searchInput (fst (selectHost hostId s)) =
          (if host_state host = Available then [] else searchInput s)"
    if "selectedHost (s\<lparr>selectedHostId := Some hostId\<rparr>) = Some host" for host
    using that
    by (cases "host_state host")
       (simp_all add: selectHost_def Let_def updateTargets_start_def split: option.splits)
  have d: "searchInput (fst (selectHost hostId s)) = searchInput s"
    if "selectedHost (s\<lparr>selectedHostId := Some hostId\<rparr>) = None"
    using that by (simp add: selectHost_def Let_def)
  have a: "searchInput (fst (selectHost (host_id h) s)) =
        (if host_state h = Available then [] else searchInput s)"
    if "distinct (map host_id (fridaHosts s))" "h \<in> set (fridaHosts s)" "host_id h \<noteq> []"
    using selectedHost_after_select[OF that]
    by (cases "host_state h")
       (simp_all add: selectHost_def Let_def updateTargets_start_def split: option.splits)
  have b: "searchInput (fst (selectHost hostId s)) = searchInput s"
    if "hostId \<notin> host_id ` set (fridaHosts s)"
    using selectedHost_absent[OF that] by (simp add: selectHost_def Let_def)
  from a b c d show ?thesis by blast
qed

theorem selectHost_resets_search_iff_available_witness:
  "searchInput (fst (selectHost ''A''
      \<lparr>metadata_hosts = Some [\<lparr>host_id = ''A'', host_name = ''Pixel'', host_state = Available\<rparr>,
                              \<lparr>host_id = ''B'', host_name = ''Nexus'', host_state = SetupRequired\<rparr>],
       fridaTargets = [], inProgressHostIds = [], inProgressTargetIds = [],
       selectedHostId = None, searchInput = ''chrome''\<rparr>)) = []
   \<and> searchInput (fst (selectHost ''B''
      \<lparr>metadata_hosts = Some [\<lparr>host_id = ''A'', host_name = ''Pixel'', host_state = Available\<rparr>,
                              \<lparr>host_id = ''B'', host_name = ''Nexus'', host_state = SetupRequired\<rparr>],
       fridaTargets = [], inProgressHostIds = [], inProgressTargetIds = [],
       selectedHostId = None, searchInput = ''chrome''\<rparr>)) = ''chrome''
   \<and> searchInput (fst (selectHost ''C''
      \<lparr>metadata_hosts = Some [\<lparr>host_id = ''A'', host_name = ''Pixel'', host_state = Available\<rparr>,
                              \<lparr>host_id = ''B'', host_name = ''Nexus'', host_state = SetupRequired\<rparr>],
       fridaTargets = [], inProgressHostIds = [], inProgressTargetIds = [],
       selectedHostId = None, searchInput = ''chrome''\<rparr>)) = ''chrome''"
proof -
  let ?a = "\<lparr>host_id = ''A'', host_name = ''Pixel'', host_state = Available\<rparr>"
  let ?b = "\<lparr>host_id = ''B'', host_name = ''Nexus'', host_state = SetupRequired\<rparr>"
  let ?s = "\<lparr>metadata_hosts = Some [\<lparr>host_id = ''A'', host_name = ''Pixel'', host_state = Available\<rparr>,
                              \<lparr>host_id = ''B'', host_name = ''Nexus'', host_state = SetupRequired\<rparr>],
       fridaTargets = [], inProgressHostIds = [], inProgressTargetIds = [],
       selectedHostId = None, searchInput = ''chrome''\<rparr>"
  have hosts: "fridaHosts ?s = [?a, ?b]"
    by (simp add: fridaHosts_def)
  from selectHost_resets_search_iff_available [of ?s ?a "''C''"] hosts
  have "searchInput (fst (selectHost ''A'' ?s)) = []"
    and "searchInput (fst (selectHost ''C'' ?s)) = ''chrome''"
    by simp_all
  moreover from selectHost_resets_search_iff_available [of ?s ?b "''C''"] hosts
  have "searchInput (fst (selectHost ''B'' ?s)) = ''chrome''"
    by simp
  ultimately show ?thesis by simp
qed

end
